theory Spec2Isabelle
  imports Main "HOL-Library.Word"
begin

section \<open>JavaScript values\<close>

text \<open>
  A JavaScript string is a sequence of 16-bit code units. The text that
  \<^verbatim>\<open>fs.readFile(path, 'utf8')\<close> resolves with, the property names of a parsed document
  and the keys and values of a resource are such strings. File paths, the platform name
  and error messages are never compared with file content; they are kept as plain
  \<open>string\<close>s.
\<close>

type_synonym jschar = "16 word"
type_synonym jsstring = "jschar list"

definition str :: "string \<Rightarrow> jsstring" where
  "str s = map (\<lambda>c. of_nat (of_char c)) s"

text \<open>
  The values \<^verbatim>\<open>JSON.parse\<close> can produce, and \<^verbatim>\<open>undefined\<close>, which reading an absent
  property produces. A number is kept as the text of its literal: the detector passes
  values on and never computes with them. An object is the list of its own properties,
  each name once; the order of the list plays no role in what follows.
\<close>

datatype js_value =
    JUndefined
  | JNull
  | JBool bool
  | JNumber jsstring
  | JString jsstring
  | JArray "js_value list"
  | JObject "(jsstring \<times> js_value) list"

text \<open>A thrown value: an \<^verbatim>\<open>Error\<close> object with its \<^verbatim>\<open>name\<close> and \<^verbatim>\<open>message\<close>.\<close>

datatype js_error = Error (name: string) (message: string)

text \<open>
  The wording of the messages of \<^verbatim>\<open>SyntaxError\<close> and \<^verbatim>\<open>TypeError\<close> belongs to the
  JavaScript engine; one wording stands for each here.
\<close>

definition syntax_error :: js_error where
  "syntax_error = Error ''SyntaxError'' ''Unexpected token in JSON''"

definition type_error :: "string \<Rightarrow> js_error" where
  "type_error what = Error ''TypeError'' (''Cannot read property of '' @ what)"

text \<open>
  Property access \<^verbatim>\<open>v.k\<close> for a name \<open>k\<close> that no built-in prototype defines (as is
  the case for the three names the detector reads): on \<^verbatim>\<open>null\<close> and \<^verbatim>\<open>undefined\<close> it
  throws a \<^verbatim>\<open>TypeError\<close>, on an object it is the own property of that name, and it is
  \<^verbatim>\<open>undefined\<close> everywhere else.
\<close>

fun js_get :: "js_value \<Rightarrow> jsstring \<Rightarrow> js_error + js_value" where
  "js_get JUndefined k = Inl (type_error ''undefined'')"
| "js_get JNull k = Inl (type_error ''null'')"
| "js_get (JObject ms) k = Inr (case map_of ms k of Some v \<Rightarrow> v | None \<Rightarrow> JUndefined)"
| "js_get (JBool b) k = Inr JUndefined"
| "js_get (JNumber n) k = Inr JUndefined"
| "js_get (JString s) k = Inr JUndefined"
| "js_get (JArray xs) k = Inr JUndefined"

section \<open>\<^verbatim>\<open>JSON.parse\<close>\<close>

text \<open>
  The JSON grammar of ECMA-404, which \<^verbatim>\<open>JSON.parse\<close> accepts: a lexer that reads the
  text one code unit at a time, and a parser that reads the tokens with a stack of the
  containers that are still open. Every rejected text throws a \<^verbatim>\<open>SyntaxError\<close>.
\<close>

datatype token =
    TLBrace | TRBrace | TLBracket | TRBracket | TColon | TComma
  | TString jsstring | TNumber jsstring | TTrue | TFalse | TNull

datatype num_state =
  NMinus | NZero | NInt | NDot | NFrac | NExp | NExpSign | NExpDigits

datatype lex_state =
    LStart
  | LString jsstring
  | LEscape jsstring
  | LUnicode jsstring nat jschar
  | LNumber num_state jsstring
  | LLiteral jsstring token

definition is_ws :: "jschar \<Rightarrow> bool" where
  "is_ws c = (c = 0x20 \<or> c = 0x09 \<or> c = 0x0A \<or> c = 0x0D)"

definition is_digit :: "jschar \<Rightarrow> bool" where
  "is_digit c = (0x30 \<le> c \<and> c \<le> 0x39)"

definition hex_value :: "jschar \<Rightarrow> jschar option" where
  "hex_value c =
     (if 0x30 \<le> c \<and> c \<le> 0x39 then Some (c - 0x30)
      else if 0x41 \<le> c \<and> c \<le> 0x46 then Some (c - 0x41 + 10)
      else if 0x61 \<le> c \<and> c \<le> 0x66 then Some (c - 0x61 + 10)
      else None)"

text \<open>The number grammar: \<^verbatim>\<open>-? (0 | [1-9][0-9]*) (. [0-9]+)? ([eE] [+-]? [0-9]+)?\<close>.\<close>

definition num_step :: "num_state \<Rightarrow> jschar \<Rightarrow> num_state option" where
  "num_step s c =
     (case s of
        NMinus \<Rightarrow> if c = 0x30 then Some NZero else if is_digit c then Some NInt else None
      | NZero \<Rightarrow> if c = 0x2E then Some NDot
                 else if c = 0x65 \<or> c = 0x45 then Some NExp else None
      | NInt \<Rightarrow> if is_digit c then Some NInt else if c = 0x2E then Some NDot
                else if c = 0x65 \<or> c = 0x45 then Some NExp else None
      | NDot \<Rightarrow> if is_digit c then Some NFrac else None
      | NFrac \<Rightarrow> if is_digit c then Some NFrac
                 else if c = 0x65 \<or> c = 0x45 then Some NExp else None
      | NExp \<Rightarrow> if c = 0x2B \<or> c = 0x2D then Some NExpSign
                else if is_digit c then Some NExpDigits else None
      | NExpSign \<Rightarrow> if is_digit c then Some NExpDigits else None
      | NExpDigits \<Rightarrow> if is_digit c then Some NExpDigits else None)"

definition num_final :: "num_state \<Rightarrow> bool" where
  "num_final s = (s = NZero \<or> s = NInt \<or> s = NFrac \<or> s = NExpDigits)"

text \<open>A code unit read between two tokens.\<close>

definition start_char :: "jschar \<Rightarrow> js_error + (lex_state \<times> token list)" where
  "start_char c =
     (if is_ws c then Inr (LStart, [])
      else if c = 0x7B then Inr (LStart, [TLBrace])
      else if c = 0x7D then Inr (LStart, [TRBrace])
      else if c = 0x5B then Inr (LStart, [TLBracket])
      else if c = 0x5D then Inr (LStart, [TRBracket])
      else if c = 0x3A then Inr (LStart, [TColon])
      else if c = 0x2C then Inr (LStart, [TComma])
      else if c = 0x22 then Inr (LString [], [])
      else if c = 0x2D then Inr (LNumber NMinus [c], [])
      else if c = 0x30 then Inr (LNumber NZero [c], [])
      else if is_digit c then Inr (LNumber NInt [c], [])
      else if c = 0x74 then Inr (LLiteral (str ''rue'') TTrue, [])
      else if c = 0x66 then Inr (LLiteral (str ''alse'') TFalse, [])
      else if c = 0x6E then Inr (LLiteral (str ''ull'') TNull, [])
      else Inl syntax_error)"

definition escape_char :: "jschar \<Rightarrow> jschar option" where
  "escape_char c =
     (if c = 0x22 \<or> c = 0x5C \<or> c = 0x2F then Some c
      else if c = 0x62 then Some 0x08
      else if c = 0x66 then Some 0x0C
      else if c = 0x6E then Some 0x0A
      else if c = 0x72 then Some 0x0D
      else if c = 0x74 then Some 0x09
      else None)"

fun lex_step :: "lex_state \<Rightarrow> jschar \<Rightarrow> js_error + (lex_state \<times> token list)" where
  "lex_step LStart c = start_char c"
| "lex_step (LString acc) c =
     (if c = 0x22 then Inr (LStart, [TString acc])
      else if c = 0x5C then Inr (LEscape acc, [])
      else if c < 0x20 then Inl syntax_error
      else Inr (LString (acc @ [c]), []))"
| "lex_step (LEscape acc) c =
     (if c = 0x75 then Inr (LUnicode acc 0 0, [])
      else (case escape_char c of
              Some d \<Rightarrow> Inr (LString (acc @ [d]), [])
            | None \<Rightarrow> Inl syntax_error))"
| "lex_step (LUnicode acc n v) c =
     (case hex_value c of
        None \<Rightarrow> Inl syntax_error
      | Some d \<Rightarrow>
          (if n = 3 then Inr (LString (acc @ [v * 16 + d]), [])
           else Inr (LUnicode acc (Suc n) (v * 16 + d), [])))"
| "lex_step (LNumber s acc) c =
     (case num_step s c of
        Some s' \<Rightarrow> Inr (LNumber s' (acc @ [c]), [])
      | None \<Rightarrow>
          (if num_final s
           then (case start_char c of
                   Inl e \<Rightarrow> Inl e
                 | Inr (st, ts) \<Rightarrow> Inr (st, TNumber acc # ts))
           else Inl syntax_error))"
| "lex_step (LLiteral rest tok) c =
     (case rest of
        [] \<Rightarrow> Inl syntax_error
      | [x] \<Rightarrow> if c = x then Inr (LStart, [tok]) else Inl syntax_error
      | x # y # ys \<Rightarrow> if c = x then Inr (LLiteral (y # ys) tok, []) else Inl syntax_error)"

fun lex_end :: "lex_state \<Rightarrow> js_error + token list" where
  "lex_end LStart = Inr []"
| "lex_end (LNumber s acc) = (if num_final s then Inr [TNumber acc] else Inl syntax_error)"
| "lex_end (LString acc) = Inl syntax_error"
| "lex_end (LEscape acc) = Inl syntax_error"
| "lex_end (LUnicode acc n v) = Inl syntax_error"
| "lex_end (LLiteral rest tok) = Inl syntax_error"

fun lex :: "lex_state \<Rightarrow> jsstring \<Rightarrow> js_error + token list" where
  "lex st [] = lex_end st"
| "lex st (c # cs) =
     (case lex_step st c of
        Inl e \<Rightarrow> Inl e
      | Inr (st', ts) \<Rightarrow>
          (case lex st' cs of Inl e \<Rightarrow> Inl e | Inr rest \<Rightarrow> Inr (ts @ rest)))"

text \<open>
  The parser. A frame is a container that is still open: an array with the elements
  read so far, an object with its members, or an object with its members and the name
  whose value is being read.
\<close>

datatype frame =
    FArray "js_value list"
  | FObject "(jsstring \<times> js_value) list"
  | FMember "(jsstring \<times> js_value) list" jsstring

datatype parse_state =
  PValue | PFirstValue | PFirstKey | PKey | PColon | PAfter | PDone js_value

text \<open>Defining a property: a name already present keeps its place and takes the new value.\<close>

fun set_property ::
  "(jsstring \<times> js_value) list \<Rightarrow> jsstring \<Rightarrow> js_value \<Rightarrow> (jsstring \<times> js_value) list" where
  "set_property [] k v = [(k, v)]"
| "set_property ((k', v') # ms) k v =
     (if k' = k then (k', v) # ms else (k', v') # set_property ms k v)"

text \<open>A complete value goes to the innermost open container, or is the result.\<close>

fun deliver :: "js_value \<Rightarrow> frame list \<Rightarrow> js_error + (parse_state \<times> frame list)" where
  "deliver v [] = Inr (PDone v, [])"
| "deliver v (FArray xs # st) = Inr (PAfter, FArray (xs @ [v]) # st)"
| "deliver v (FMember ms k # st) = Inr (PAfter, FObject (set_property ms k v) # st)"
| "deliver v (FObject ms # st) = Inl syntax_error"

fun begin_value :: "token \<Rightarrow> frame list \<Rightarrow> js_error + (parse_state \<times> frame list)" where
  "begin_value TLBracket st = Inr (PFirstValue, FArray [] # st)"
| "begin_value TLBrace st = Inr (PFirstKey, FObject [] # st)"
| "begin_value (TString s) st = deliver (JString s) st"
| "begin_value (TNumber n) st = deliver (JNumber n) st"
| "begin_value TTrue st = deliver (JBool True) st"
| "begin_value TFalse st = deliver (JBool False) st"
| "begin_value TNull st = deliver JNull st"
| "begin_value TRBrace st = Inl syntax_error"
| "begin_value TRBracket st = Inl syntax_error"
| "begin_value TColon st = Inl syntax_error"
| "begin_value TComma st = Inl syntax_error"

definition read_key :: "token \<Rightarrow> frame list \<Rightarrow> js_error + (parse_state \<times> frame list)" where
  "read_key t st =
     (case (t, st) of
        (TString k, FObject ms # st') \<Rightarrow> Inr (PColon, FMember ms k # st')
      | _ \<Rightarrow> Inl syntax_error)"

definition after_value :: "token \<Rightarrow> frame list \<Rightarrow> js_error + (parse_state \<times> frame list)" where
  "after_value t st =
     (case st of
        FArray xs # st' \<Rightarrow>
          (case t of
             TComma \<Rightarrow> Inr (PValue, st)
           | TRBracket \<Rightarrow> deliver (JArray xs) st'
           | _ \<Rightarrow> Inl syntax_error)
      | FObject ms # st' \<Rightarrow>
          (case t of
             TComma \<Rightarrow> Inr (PKey, st)
           | TRBrace \<Rightarrow> deliver (JObject ms) st'
           | _ \<Rightarrow> Inl syntax_error)
      | _ \<Rightarrow> Inl syntax_error)"

fun parse_step ::
  "parse_state \<Rightarrow> frame list \<Rightarrow> token \<Rightarrow> js_error + (parse_state \<times> frame list)" where
  "parse_step PValue st t = begin_value t st"
| "parse_step PFirstValue st t =
     (case (t, st) of
        (TRBracket, FArray xs # st') \<Rightarrow> deliver (JArray xs) st'
      | _ \<Rightarrow> begin_value t st)"
| "parse_step PFirstKey st t =
     (case (t, st) of
        (TRBrace, FObject ms # st') \<Rightarrow> deliver (JObject ms) st'
      | _ \<Rightarrow> read_key t st)"
| "parse_step PKey st t = read_key t st"
| "parse_step PColon st t = (case t of TColon \<Rightarrow> Inr (PValue, st) | _ \<Rightarrow> Inl syntax_error)"
| "parse_step PAfter st t = after_value t st"
| "parse_step (PDone v) st t = Inl syntax_error"

fun parse_tokens :: "parse_state \<Rightarrow> frame list \<Rightarrow> token list \<Rightarrow> js_error + js_value" where
  "parse_tokens ps st [] = (case ps of PDone v \<Rightarrow> Inr v | _ \<Rightarrow> Inl syntax_error)"
| "parse_tokens ps st (t # ts) =
     (case parse_step ps st t of
        Inl e \<Rightarrow> Inl e
      | Inr (ps', st') \<Rightarrow> parse_tokens ps' st' ts)"

definition JSON_parse :: "jsstring \<Rightarrow> js_error + js_value" where
  "JSON_parse text =
     (case lex LStart text of
        Inl e \<Rightarrow> Inl e
      | Inr ts \<Rightarrow> parse_tokens PValue [] ts)"

section \<open>Resources\<close>

text \<open>
  Modelled from the spec: the class \<^verbatim>\<open>Resource\<close> of the resources package is not among
  the sources. The spec's AttributeSet is an immutable mapping from attribute keys to
  values, with unique keys; the empty AttributeSet is its distinguished value for
  "no information". A key that is present may hold any JavaScript value the
  constructor was given, \<^verbatim>\<open>undefined\<close> and \<^verbatim>\<open>null\<close> included.
\<close>

datatype Resource = Resource (attributes: "jsstring \<rightharpoonup> js_value")

definition Resource_empty :: Resource where
  "Resource_empty = Resource Map.empty"

text \<open>
  Modelled from the spec: the tables of the semantic-conventions package are not among
  the sources; the spec gives the attribute keys and the two values.
\<close>

definition CLOUD_PROVIDER :: jsstring where
  "CLOUD_PROVIDER = str ''cloud.provider''"

definition CLOUD_PLATFORM :: jsstring where
  "CLOUD_PLATFORM = str ''cloud.platform''"

definition SERVICE_NAME :: jsstring where
  "SERVICE_NAME = str ''service.name''"

definition SERVICE_NAMESPACE :: jsstring where
  "SERVICE_NAMESPACE = str ''service.namespace''"

definition SERVICE_VERSION :: jsstring where
  "SERVICE_VERSION = str ''service.version''"

definition SERVICE_INSTANCE_ID :: jsstring where
  "SERVICE_INSTANCE_ID = str ''service.instance.id''"

definition AWS :: jsstring where
  "AWS = str ''aws''"

definition AWS_ELASTIC_BEANSTALK :: jsstring where
  "AWS_ELASTIC_BEANSTALK = str ''aws_elastic_beanstalk''"

section \<open>The world outside the detector\<close>

text \<open>
  What \<^verbatim>\<open>detect\<close> reads of its environment: the platform name, and the outcome of
  \<^verbatim>\<open>fs.access(path, mode)\<close> (resolves, or rejects with an error) and of
  \<^verbatim>\<open>fs.readFile(path, encoding)\<close> (resolves with the text, or rejects) for every path.
  The two are independent: a path may pass the access check and fail to be read.
\<close>

record world =
  process_platform :: string
  fs_access :: "string \<Rightarrow> nat \<Rightarrow> js_error option"
  fs_readFile :: "string \<Rightarrow> string \<Rightarrow> js_error + jsstring"

definition R_OK :: nat where
  "R_OK = 4"

text \<open>The calls \<^verbatim>\<open>detect\<close> makes, in the order it makes them.\<close>

datatype call =
    FsAccess string nat
  | FsReadFile string string
  | JsonParse jsstring
  | DiagDebug string

section \<open>\<^verbatim>\<open>AwsBeanstalkDetector\<close>\<close>

definition DEFAULT_BEANSTALK_CONF_PATH :: string where
  "DEFAULT_BEANSTALK_CONF_PATH = ''/var/elasticbeanstalk/xray/environment.conf''"

definition WIN_OS_BEANSTALK_CONF_PATH :: string where
  "WIN_OS_BEANSTALK_CONF_PATH =
     ''C:'' @ [CHR 0x5C] @ ''Program Files'' @ [CHR 0x5C] @ ''Amazon'' @ [CHR 0x5C]
       @ ''XRay'' @ [CHR 0x5C] @ ''environment.conf''"

record AwsBeanstalkDetector =
  BEANSTALK_CONF_PATH :: string

definition new_AwsBeanstalkDetector :: "world \<Rightarrow> AwsBeanstalkDetector" where
  "new_AwsBeanstalkDetector w =
     (if process_platform w = ''win32''
      then \<lparr>BEANSTALK_CONF_PATH = WIN_OS_BEANSTALK_CONF_PATH\<rparr>
      else \<lparr>BEANSTALK_CONF_PATH = DEFAULT_BEANSTALK_CONF_PATH\<rparr>)"

text \<open>
  The two static members of the class are the promise forms of \<^verbatim>\<open>fs.readFile\<close> and
  \<^verbatim>\<open>fs.access\<close>: the promise is rejected with the error of the call, or fulfilled with
  its value.
\<close>

definition readFileAsync :: "world \<Rightarrow> string \<Rightarrow> string \<Rightarrow> js_error + jsstring" where
  "readFileAsync w path encoding = fs_readFile w path encoding"

definition fileAccessAsync :: "world \<Rightarrow> string \<Rightarrow> nat \<Rightarrow> js_error option" where
  "fileAccessAsync w path mode = fs_access w path mode"

text \<open>
  The body of the \<^verbatim>\<open>try\<close> block: the calls made and either the thrown error or the
  resource returned. The object literal reads the three fields in order, each read
  throwing when the parsed document is \<^verbatim>\<open>null\<close>, and lists all six keys whatever the
  values are.
\<close>

definition detect_try :: "AwsBeanstalkDetector \<Rightarrow> world \<Rightarrow> call list \<times> (js_error + Resource)" where
  "detect_try this w =
     (case fileAccessAsync w (BEANSTALK_CONF_PATH this) R_OK of
        Some e \<Rightarrow> ([FsAccess (BEANSTALK_CONF_PATH this) R_OK], Inl e)
      | None \<Rightarrow>
          (case readFileAsync w (BEANSTALK_CONF_PATH this) ''utf8'' of
             Inl e \<Rightarrow>
               ([FsAccess (BEANSTALK_CONF_PATH this) R_OK,
                 FsReadFile (BEANSTALK_CONF_PATH this) ''utf8''], Inl e)
           | Inr rawData \<Rightarrow>
               ([FsAccess (BEANSTALK_CONF_PATH this) R_OK,
                 FsReadFile (BEANSTALK_CONF_PATH this) ''utf8'',
                 JsonParse rawData],
                case JSON_parse rawData of
                  Inl e \<Rightarrow> Inl e
                | Inr parsedData \<Rightarrow>
                    (case js_get parsedData (str ''environment_name'') of
                       Inl e \<Rightarrow> Inl e
                     | Inr environment_name \<Rightarrow>
                    (case js_get parsedData (str ''version_label'') of
                       Inl e \<Rightarrow> Inl e
                     | Inr version_label \<Rightarrow>
                    (case js_get parsedData (str ''deployment_id'') of
                       Inl e \<Rightarrow> Inl e
                     | Inr deployment_id \<Rightarrow>
                         Inr (Resource
                           [CLOUD_PROVIDER \<mapsto> JString AWS,
                            CLOUD_PLATFORM \<mapsto> JString AWS_ELASTIC_BEANSTALK,
                            SERVICE_NAME \<mapsto> JString AWS_ELASTIC_BEANSTALK,
                            SERVICE_NAMESPACE \<mapsto> environment_name,
                            SERVICE_VERSION \<mapsto> version_label,
                            SERVICE_INSTANCE_ID \<mapsto> deployment_id])))))))"

text \<open>
  \<^verbatim>\<open>detect\<close>: the \<^verbatim>\<open>try\<close> block with its \<^verbatim>\<open>catch\<close>, which logs the message of the error
  and returns the empty resource. The diagnostic sink takes the message and returns; it
  does not throw. The result is the calls made and how the promise
  settles: \<open>Inr\<close> a resource when it is fulfilled, \<open>Inl\<close> an error when it is rejected.
  The configuration argument is optional and of a type the sources do not declare.
\<close>

definition detect ::
  "AwsBeanstalkDetector \<Rightarrow> 'cfg option \<Rightarrow> world \<Rightarrow> call list \<times> (js_error + Resource)" where
  "detect this config w =
     (case detect_try this w of
        (calls, Inl e) \<Rightarrow>
          (calls @ [DiagDebug (''AwsBeanstalkDetector failed: '' @ message e)],
           Inr Resource_empty)
      | (calls, Inr r) \<Rightarrow> (calls, Inr r))"

definition awsBeanstalkDetector :: "world \<Rightarrow> AwsBeanstalkDetector" where
  "awsBeanstalkDetector w = new_AwsBeanstalkDetector w"

section \<open>Merging and resolving\<close>

text \<open>
  Modelled from the spec: the merge operation of the AttributeSet is not among the
  sources. For a key present in both sets the later value wins, unless the key is
  present in \<open>a\<close> and absent or empty in \<open>b\<close>, in which case the value of \<open>a\<close> is kept.
  A key present in one set only keeps its value. The spec does not say which values are
  empty; \<^verbatim>\<open>undefined\<close>, \<^verbatim>\<open>null\<close> and the empty string are taken to be.
\<close>

definition is_empty_value :: "js_value \<Rightarrow> bool" where
  "is_empty_value v = (v = JUndefined \<or> v = JNull \<or> v = JString [])"

definition merge :: "Resource \<Rightarrow> Resource \<Rightarrow> Resource" where
  "merge a b =
     Resource (\<lambda>k. case attributes b k of
                     None \<Rightarrow> attributes a k
                   | Some v \<Rightarrow>
                       (if is_empty_value v
                        then (case attributes a k of Some u \<Rightarrow> Some u | None \<Rightarrow> Some v)
                        else Some v))"

text \<open>
  Modelled from the spec: the Resolver is not among the sources. It starts every
  configured detector, stores each result in the slot of its detector as the result
  arrives, and after the join folds the slots from left to right through \<open>merge\<close>,
  starting from the empty set. A detector whose result has not arrived within its
  timeout contributes the empty set. A detector is the result its \<^verbatim>\<open>detect\<close> is
  fulfilled with in a given world; \<open>completed\<close> lists the detectors (by position in the
  configured list) whose results arrived in time, in the order of their arrival.
\<close>

type_synonym Detector = "world \<Rightarrow> Resource"

definition settle ::
  "Detector list \<Rightarrow> world \<Rightarrow> Resource option list \<Rightarrow> nat \<Rightarrow> Resource option list" where
  "settle detectors w slots i =
     (if i < length detectors then slots[i := Some ((detectors ! i) w)] else slots)"

definition collect :: "Detector list \<Rightarrow> world \<Rightarrow> nat list \<Rightarrow> Resource option list" where
  "collect detectors w completed =
     foldl (settle detectors w) (replicate (length detectors) None) completed"

definition slot_result :: "Resource option \<Rightarrow> Resource" where
  "slot_result s = (case s of Some r \<Rightarrow> r | None \<Rightarrow> Resource_empty)"

definition resolve :: "Detector list \<Rightarrow> world \<Rightarrow> nat list \<Rightarrow> Resource" where
  "resolve detectors w completed =
     foldl merge Resource_empty (map slot_result (collect detectors w completed))"

section \<open>Concrete hosts and detectors\<close>

text \<open>
  Hosts to run the detector on: one where no file exists, one where the configuration
  file exists and cannot be read, and one where it is readable with a given content.
\<close>

definition enoent :: js_error where
  "enoent = Error ''Error'' ''ENOENT: no such file or directory''"

definition eacces :: js_error where
  "eacces = Error ''Error'' ''EACCES: permission denied''"

definition host_without_file :: world where
  "host_without_file =
     \<lparr>process_platform = ''linux'',
      fs_access = (\<lambda>p m. Some enoent),
      fs_readFile = (\<lambda>p enc. Inl enoent)\<rparr>"

definition host_with_unreadable_file :: world where
  "host_with_unreadable_file =
     \<lparr>process_platform = ''linux'',
      fs_access = (\<lambda>p m. if p = DEFAULT_BEANSTALK_CONF_PATH then Some eacces else Some enoent),
      fs_readFile = (\<lambda>p enc. if p = DEFAULT_BEANSTALK_CONF_PATH then Inl eacces else Inl enoent)\<rparr>"

definition beanstalk_host :: "jsstring \<Rightarrow> world" where
  "beanstalk_host content =
     \<lparr>process_platform = ''linux'',
      fs_access = (\<lambda>p m. if p = DEFAULT_BEANSTALK_CONF_PATH then None else Some enoent),
      fs_readFile = (\<lambda>p enc. if p = DEFAULT_BEANSTALK_CONF_PATH then Inr content else Inl enoent)\<rparr>"

text \<open>The two detectors of the spec's example of the Resolver.\<close>

definition D1 :: Detector where
  "D1 w = Resource [str ''a'' \<mapsto> JString (str ''1'')]"

definition D2 :: Detector where
  "D2 w = Resource [str ''a'' \<mapsto> JString (str ''2''), str ''b'' \<mapsto> JString (str ''3'')]"

section \<open>Facts about the model\<close>

lemma attribute_keys_distinct:
  "CLOUD_PROVIDER \<noteq> CLOUD_PLATFORM" "CLOUD_PROVIDER \<noteq> SERVICE_NAME"
  "CLOUD_PROVIDER \<noteq> SERVICE_NAMESPACE" "CLOUD_PROVIDER \<noteq> SERVICE_VERSION"
  "CLOUD_PROVIDER \<noteq> SERVICE_INSTANCE_ID" "CLOUD_PLATFORM \<noteq> SERVICE_NAME"
  "CLOUD_PLATFORM \<noteq> SERVICE_NAMESPACE" "CLOUD_PLATFORM \<noteq> SERVICE_VERSION"
  "CLOUD_PLATFORM \<noteq> SERVICE_INSTANCE_ID" "SERVICE_NAME \<noteq> SERVICE_NAMESPACE"
  "SERVICE_NAME \<noteq> SERVICE_VERSION" "SERVICE_NAME \<noteq> SERVICE_INSTANCE_ID"
  "SERVICE_NAMESPACE \<noteq> SERVICE_VERSION" "SERVICE_NAMESPACE \<noteq> SERVICE_INSTANCE_ID"
  "SERVICE_VERSION \<noteq> SERVICE_INSTANCE_ID"
  by (simp_all add: CLOUD_PROVIDER_def CLOUD_PLATFORM_def SERVICE_NAME_def
      SERVICE_NAMESPACE_def SERVICE_VERSION_def SERVICE_INSTANCE_ID_def str_def)

lemma host_paths:
  "BEANSTALK_CONF_PATH (awsBeanstalkDetector host_without_file) = DEFAULT_BEANSTALK_CONF_PATH"
  "BEANSTALK_CONF_PATH (awsBeanstalkDetector host_with_unreadable_file) =
     DEFAULT_BEANSTALK_CONF_PATH"
  "BEANSTALK_CONF_PATH (awsBeanstalkDetector (beanstalk_host content)) =
     DEFAULT_BEANSTALK_CONF_PATH"
  by (simp_all add: awsBeanstalkDetector_def new_AwsBeanstalkDetector_def host_without_file_def
      host_with_unreadable_file_def beanstalk_host_def)

lemma beanstalk_host_fs:
  "fs_access (beanstalk_host content) DEFAULT_BEANSTALK_CONF_PATH m = None"
  "fs_readFile (beanstalk_host content) DEFAULT_BEANSTALK_CONF_PATH enc = Inr content"
  by (simp_all add: beanstalk_host_def)

subsection \<open>The parser never produces \<^verbatim>\<open>undefined\<close>\<close>

lemma deliver_defined:
  "deliver v st = Inr (ps, st') \<Longrightarrow> v \<noteq> JUndefined \<Longrightarrow> ps \<noteq> PDone JUndefined"
  by (cases "(v, st)" rule: deliver.cases) auto

lemma begin_value_defined: "begin_value t st = Inr (ps, st') \<Longrightarrow> ps \<noteq> PDone JUndefined"
  by (cases t) (auto dest: deliver_defined)

lemma read_key_defined: "read_key t st = Inr (ps, st') \<Longrightarrow> ps \<noteq> PDone JUndefined"
  by (auto simp: read_key_def split: token.splits list.splits frame.splits)

lemma after_value_defined: "after_value t st = Inr (ps, st') \<Longrightarrow> ps \<noteq> PDone JUndefined"
  by (auto simp: after_value_def split: token.splits list.splits frame.splits
      dest: deliver_defined)

lemma parse_step_defined: "parse_step ps st t = Inr (ps', st') \<Longrightarrow> ps' \<noteq> PDone JUndefined"
  by (cases ps)
     (auto split: token.splits list.splits frame.splits
       dest: deliver_defined begin_value_defined read_key_defined after_value_defined)

lemma parse_tokens_defined:
  "parse_tokens ps st ts = Inr v \<Longrightarrow> ps \<noteq> PDone JUndefined \<Longrightarrow> v \<noteq> JUndefined"
proof (induction ts arbitrary: ps st)
  case Nil
  then show ?case by (cases ps) auto
next
  case (Cons t ts)
  then show ?case
    by (auto split: sum.splits dest: parse_step_defined)
qed

lemma JSON_parse_defined: "JSON_parse text \<noteq> Inr JUndefined"
proof
  assume "JSON_parse text = Inr JUndefined"
  then obtain ts where "parse_tokens PValue [] ts = Inr JUndefined"
    by (auto simp: JSON_parse_def split: sum.splits)
  then show False
    using parse_tokens_defined by blast
qed

subsection \<open>The paths through \<^verbatim>\<open>detect\<close>\<close>

lemma js_get_throws: "js_get v k = Inl e \<Longrightarrow> v = JNull \<or> v = JUndefined"
  by (cases v) auto

lemma js_get_returns: "v \<noteq> JNull \<Longrightarrow> v \<noteq> JUndefined \<Longrightarrow> \<exists>x. js_get v k = Inr x"
  by (cases v) auto

lemma detect_parse_throws:
  assumes "fs_access w (BEANSTALK_CONF_PATH this) R_OK = None"
    and "fs_readFile w (BEANSTALK_CONF_PATH this) ''utf8'' = Inr rawData"
    and "JSON_parse rawData = Inl e"
  shows "detect this cfg w =
    ([FsAccess (BEANSTALK_CONF_PATH this) R_OK, FsReadFile (BEANSTALK_CONF_PATH this) ''utf8'',
      JsonParse rawData,
      DiagDebug (''AwsBeanstalkDetector failed: '' @ message e)], Inr Resource_empty)"
  using assms by (simp add: detect_def detect_try_def fileAccessAsync_def readFileAsync_def)

lemma detect_get_throws:
  assumes "fs_access w (BEANSTALK_CONF_PATH this) R_OK = None"
    and "fs_readFile w (BEANSTALK_CONF_PATH this) ''utf8'' = Inr rawData"
    and "JSON_parse rawData = Inr parsedData"
    and "js_get parsedData (str ''environment_name'') = Inl e"
  shows "detect this cfg w =
    ([FsAccess (BEANSTALK_CONF_PATH this) R_OK, FsReadFile (BEANSTALK_CONF_PATH this) ''utf8'',
      JsonParse rawData,
      DiagDebug (''AwsBeanstalkDetector failed: '' @ message e)], Inr Resource_empty)"
  using assms by (simp add: detect_def detect_try_def fileAccessAsync_def readFileAsync_def)

lemma detect_fulfilled_with:
  assumes "fs_access w (BEANSTALK_CONF_PATH this) R_OK = None"
    and "fs_readFile w (BEANSTALK_CONF_PATH this) ''utf8'' = Inr rawData"
    and "JSON_parse rawData = Inr parsedData"
    and "js_get parsedData (str ''environment_name'') = Inr environment_name"
    and "js_get parsedData (str ''version_label'') = Inr version_label"
    and "js_get parsedData (str ''deployment_id'') = Inr deployment_id"
  shows "detect this cfg w =
    ([FsAccess (BEANSTALK_CONF_PATH this) R_OK, FsReadFile (BEANSTALK_CONF_PATH this) ''utf8'',
      JsonParse rawData],
     Inr (Resource
           [CLOUD_PROVIDER \<mapsto> JString AWS,
            CLOUD_PLATFORM \<mapsto> JString AWS_ELASTIC_BEANSTALK,
            SERVICE_NAME \<mapsto> JString AWS_ELASTIC_BEANSTALK,
            SERVICE_NAMESPACE \<mapsto> environment_name,
            SERVICE_VERSION \<mapsto> version_label,
            SERVICE_INSTANCE_ID \<mapsto> deployment_id]))"
  using assms by (simp add: detect_def detect_try_def fileAccessAsync_def readFileAsync_def)

lemmas key_defs = CLOUD_PROVIDER_def CLOUD_PLATFORM_def SERVICE_NAME_def
      SERVICE_NAMESPACE_def SERVICE_VERSION_def SERVICE_INSTANCE_ID_def AWS_def AWS_ELASTIC_BEANSTALK_def

lemma detect_fulfilled_cases:
  assumes "snd (detect this cfg w) = Inr r"
  shows "r = Resource_empty \<or>
     (\<exists>rawData parsedData environment_name version_label deployment_id.
        fs_access w (BEANSTALK_CONF_PATH this) R_OK = None \<and>
        fs_readFile w (BEANSTALK_CONF_PATH this) ''utf8'' = Inr rawData \<and>
        JSON_parse rawData = Inr parsedData \<and>
        js_get parsedData (str ''environment_name'') = Inr environment_name \<and>
        js_get parsedData (str ''version_label'') = Inr version_label \<and>
        js_get parsedData (str ''deployment_id'') = Inr deployment_id \<and>
        r = Resource
           [CLOUD_PROVIDER \<mapsto> JString AWS,
            CLOUD_PLATFORM \<mapsto> JString AWS_ELASTIC_BEANSTALK,
            SERVICE_NAME \<mapsto> JString AWS_ELASTIC_BEANSTALK,
            SERVICE_NAMESPACE \<mapsto> environment_name,
            SERVICE_VERSION \<mapsto> version_label,
            SERVICE_INSTANCE_ID \<mapsto> deployment_id])"
  using assms
  by (auto simp: detect_def detect_try_def fileAccessAsync_def readFileAsync_def split: option.splits sum.splits)

lemma six_keys_dom:
  "dom [CLOUD_PROVIDER \<mapsto> a, CLOUD_PLATFORM \<mapsto> b, SERVICE_NAME \<mapsto> c,
        SERVICE_NAMESPACE \<mapsto> d, SERVICE_VERSION \<mapsto> e, SERVICE_INSTANCE_ID \<mapsto> f] =
   {CLOUD_PROVIDER, CLOUD_PLATFORM, SERVICE_NAME, SERVICE_NAMESPACE, SERVICE_VERSION,
    SERVICE_INSTANCE_ID}"
  by auto

subsection \<open>Runs on the concrete hosts\<close>

lemma detect_on_beanstalk_host:
  assumes "JSON_parse content = Inr parsedData"
    and "js_get parsedData (str ''environment_name'') = Inr environment_name"
    and "js_get parsedData (str ''version_label'') = Inr version_label"
    and "js_get parsedData (str ''deployment_id'') = Inr deployment_id"
  shows "snd (detect (awsBeanstalkDetector (beanstalk_host content)) cfg (beanstalk_host content)) =
     Inr (Resource
           [str ''cloud.provider'' \<mapsto> JString (str ''aws''),
            str ''cloud.platform'' \<mapsto> JString (str ''aws_elastic_beanstalk''),
            str ''service.name'' \<mapsto> JString (str ''aws_elastic_beanstalk''),
            str ''service.namespace'' \<mapsto> environment_name,
            str ''service.version'' \<mapsto> version_label,
            str ''service.instance.id'' \<mapsto> deployment_id])"
  using detect_fulfilled_with [of "beanstalk_host content"
      "awsBeanstalkDetector (beanstalk_host content)" content parsedData
      environment_name version_label deployment_id cfg] assms
  by (simp add: host_paths beanstalk_host_fs key_defs)

lemma detect_host_without_file:
  "snd (detect (awsBeanstalkDetector host_without_file) cfg host_without_file) =
     Inr Resource_empty"
  by (simp add: detect_def detect_try_def fileAccessAsync_def readFileAsync_def host_without_file_def)

lemma parse_well_formed:
  \<open>JSON_parse (str ''{"environment_name":"prod","version_label":"v1","deployment_id":"i-123"}'') =
     Inr (JObject [(str ''environment_name'', JString (str ''prod'')),
                   (str ''version_label'', JString (str ''v1'')),
                   (str ''deployment_id'', JString (str ''i-123''))])\<close>
  by code_simp

lemma get_well_formed:
  "js_get (JObject [(str ''environment_name'', JString (str ''prod'')),
                   (str ''version_label'', JString (str ''v1'')),
                   (str ''deployment_id'', JString (str ''i-123''))]) (str ''environment_name'')
     = Inr (JString (str ''prod''))"
  "js_get (JObject [(str ''environment_name'', JString (str ''prod'')),
                   (str ''version_label'', JString (str ''v1'')),
                   (str ''deployment_id'', JString (str ''i-123''))]) (str ''version_label'')
     = Inr (JString (str ''v1''))"
  "js_get (JObject [(str ''environment_name'', JString (str ''prod'')),
                   (str ''version_label'', JString (str ''v1'')),
                   (str ''deployment_id'', JString (str ''i-123''))]) (str ''deployment_id'')
     = Inr (JString (str ''i-123''))"
  by (simp_all add: str_def)

lemma parse_partial_document:
  \<open>JSON_parse (str ''{"environment_name":"prod"}'') =
     Inr (JObject [(str ''environment_name'', JString (str ''prod''))])\<close>
  by code_simp

lemma get_partial_document:
  "js_get (JObject [(str ''environment_name'', JString (str ''prod''))]) (str ''environment_name'')
     = Inr (JString (str ''prod''))"
  "js_get (JObject [(str ''environment_name'', JString (str ''prod''))]) (str ''version_label'')
     = Inr JUndefined"
  "js_get (JObject [(str ''environment_name'', JString (str ''prod''))]) (str ''deployment_id'')
     = Inr JUndefined"
  by (simp_all add: str_def)

lemma detect_partial_document:
  \<open>snd (detect (awsBeanstalkDetector (beanstalk_host (str ''{"environment_name":"prod"}'')))
          cfg (beanstalk_host (str ''{"environment_name":"prod"}''))) =
     Inr (Resource
           [str ''cloud.provider'' \<mapsto> JString (str ''aws''),
            str ''cloud.platform'' \<mapsto> JString (str ''aws_elastic_beanstalk''),
            str ''service.name'' \<mapsto> JString (str ''aws_elastic_beanstalk''),
            str ''service.namespace'' \<mapsto> JString (str ''prod''),
            str ''service.version'' \<mapsto> JUndefined,
            str ''service.instance.id'' \<mapsto> JUndefined])\<close>
  by (rule detect_on_beanstalk_host [OF parse_partial_document get_partial_document])

lemma parse_empty_object: \<open>JSON_parse (str ''{}'') = Inr (JObject [])\<close>
  by code_simp

lemma parse_not_json: \<open>JSON_parse (str ''not json'') = Inl syntax_error\<close>
  by code_simp

lemma get_empty_object: "js_get (JObject []) k = Inr JUndefined"
  by simp

lemma detect_empty_object:
  \<open>snd (detect (awsBeanstalkDetector (beanstalk_host (str ''{}''))) cfg
          (beanstalk_host (str ''{}''))) =
     Inr (Resource
           [str ''cloud.provider'' \<mapsto> JString (str ''aws''),
            str ''cloud.platform'' \<mapsto> JString (str ''aws_elastic_beanstalk''),
            str ''service.name'' \<mapsto> JString (str ''aws_elastic_beanstalk''),
            str ''service.namespace'' \<mapsto> JUndefined,
            str ''service.version'' \<mapsto> JUndefined,
            str ''service.instance.id'' \<mapsto> JUndefined])\<close>
  by (rule detect_on_beanstalk_host [OF parse_empty_object get_empty_object get_empty_object
        get_empty_object])

lemma parse_named_document:
  \<open>JSON_parse (str ''{"service.name":"shop","service_name":"shop","environment_name":"prod","version_label":"v1","deployment_id":"i-123"}'') =
     Inr (JObject [(str ''service.name'', JString (str ''shop'')),
                   (str ''service_name'', JString (str ''shop'')),
                   (str ''environment_name'', JString (str ''prod'')),
                   (str ''version_label'', JString (str ''v1'')),
                   (str ''deployment_id'', JString (str ''i-123''))])\<close>
  by code_simp

lemma get_named_document:
  "js_get (JObject [(str ''service.name'', JString (str ''shop'')),
                   (str ''service_name'', JString (str ''shop'')),
                   (str ''environment_name'', JString (str ''prod'')),
                   (str ''version_label'', JString (str ''v1'')),
                   (str ''deployment_id'', JString (str ''i-123''))]) (str ''environment_name'')
     = Inr (JString (str ''prod''))"
  "js_get (JObject [(str ''service.name'', JString (str ''shop'')),
                   (str ''service_name'', JString (str ''shop'')),
                   (str ''environment_name'', JString (str ''prod'')),
                   (str ''version_label'', JString (str ''v1'')),
                   (str ''deployment_id'', JString (str ''i-123''))]) (str ''version_label'')
     = Inr (JString (str ''v1''))"
  "js_get (JObject [(str ''service.name'', JString (str ''shop'')),
                   (str ''service_name'', JString (str ''shop'')),
                   (str ''environment_name'', JString (str ''prod'')),
                   (str ''version_label'', JString (str ''v1'')),
                   (str ''deployment_id'', JString (str ''i-123''))]) (str ''deployment_id'')
     = Inr (JString (str ''i-123''))"
  by (simp_all add: str_def)

section \<open>The claims about \<^verbatim>\<open>detect\<close>\<close>

text \<open>
  C1. In every world, whatever the file system answers, the promise that \<^verbatim>\<open>detect\<close>
  returns is fulfilled with a resource and never rejected. Whenever something fails
  inside (the access check rejects, the read rejects, \<^verbatim>\<open>JSON.parse\<close> throws, or the
  document is \<^verbatim>\<open>null\<close> so that reading its fields throws), that resource is the empty
  one.
\<close>

theorem detect_never_throws:
  "\<exists>r. snd (detect this cfg w) = Inr r \<and>
     ((fs_access w (BEANSTALK_CONF_PATH this) R_OK \<noteq> None \<or>
       (\<exists>e. fs_readFile w (BEANSTALK_CONF_PATH this) ''utf8'' = Inl e) \<or>
       (\<exists>rawData e. fs_readFile w (BEANSTALK_CONF_PATH this) ''utf8'' = Inr rawData \<and>
            JSON_parse rawData = Inl e) \<or>
       (\<exists>rawData. fs_readFile w (BEANSTALK_CONF_PATH this) ''utf8'' = Inr rawData \<and>
            JSON_parse rawData = Inr JNull))
      \<longrightarrow> r = Resource_empty)"
  by (auto simp: detect_def detect_try_def fileAccessAsync_def readFileAsync_def split: option.splits sum.splits)

theorem detect_never_throws_witness:
  "snd (detect (awsBeanstalkDetector host_without_file) (None :: unit option) host_without_file)
     = Inr Resource_empty"
  using detect_never_throws [of "awsBeanstalkDetector host_without_file" "None :: unit option"
      host_without_file]
  by (auto simp: host_without_file_def)

text \<open>
  C2. If the access check passes and the file holds the JSON document with
  \<^verbatim>\<open>environment_name\<close> "prod", \<^verbatim>\<open>version_label\<close> "v1" and \<^verbatim>\<open>deployment_id\<close> "i-123",
  \<^verbatim>\<open>detect\<close> returns a resource with \<^verbatim>\<open>cloud.provider\<close> = aws,
  \<^verbatim>\<open>cloud.platform\<close> = aws_elastic_beanstalk, \<^verbatim>\<open>service.namespace\<close> = prod,
  \<^verbatim>\<open>service.version\<close> = v1 and \<^verbatim>\<open>service.instance.id\<close> = i-123.
\<close>

theorem detect_well_formed_document:
  assumes "fs_access w (BEANSTALK_CONF_PATH this) R_OK = None"
    and \<open>fs_readFile w (BEANSTALK_CONF_PATH this) ''utf8'' =
      Inr (str ''{"environment_name":"prod","version_label":"v1","deployment_id":"i-123"}'')\<close>
  shows "\<exists>r. snd (detect this cfg w) = Inr r \<and>
      attributes r (str ''cloud.provider'') = Some (JString (str ''aws'')) \<and>
      attributes r (str ''cloud.platform'') = Some (JString (str ''aws_elastic_beanstalk'')) \<and>
      attributes r (str ''service.namespace'') = Some (JString (str ''prod'')) \<and>
      attributes r (str ''service.version'') = Some (JString (str ''v1'')) \<and>
      attributes r (str ''service.instance.id'') = Some (JString (str ''i-123''))"
proof -
  let ?r = "Resource
           [CLOUD_PROVIDER \<mapsto> JString AWS,
            CLOUD_PLATFORM \<mapsto> JString AWS_ELASTIC_BEANSTALK,
            SERVICE_NAME \<mapsto> JString AWS_ELASTIC_BEANSTALK,
            SERVICE_NAMESPACE \<mapsto> JString (str ''prod''),
            SERVICE_VERSION \<mapsto> JString (str ''v1''),
            SERVICE_INSTANCE_ID \<mapsto> JString (str ''i-123'')]"
  have "snd (detect this cfg w) = Inr ?r"
    using detect_fulfilled_with [OF assms parse_well_formed get_well_formed, of cfg] by simp
  moreover have "attributes ?r CLOUD_PROVIDER = Some (JString AWS)"
    "attributes ?r CLOUD_PLATFORM = Some (JString AWS_ELASTIC_BEANSTALK)"
    "attributes ?r SERVICE_NAMESPACE = Some (JString (str ''prod''))"
    "attributes ?r SERVICE_VERSION = Some (JString (str ''v1''))"
    "attributes ?r SERVICE_INSTANCE_ID = Some (JString (str ''i-123''))"
    by (simp_all add: attribute_keys_distinct)
  ultimately show ?thesis
    unfolding key_defs by blast
qed

theorem detect_well_formed_document_witness:
  \<open>\<exists>r. snd (detect (awsBeanstalkDetector (beanstalk_host
            (str ''{"environment_name":"prod","version_label":"v1","deployment_id":"i-123"}'')))
          (None :: unit option)
          (beanstalk_host
            (str ''{"environment_name":"prod","version_label":"v1","deployment_id":"i-123"}'')))
        = Inr r \<and>
      attributes r (str ''cloud.provider'') = Some (JString (str ''aws'')) \<and>
      attributes r (str ''cloud.platform'') = Some (JString (str ''aws_elastic_beanstalk'')) \<and>
      attributes r (str ''service.namespace'') = Some (JString (str ''prod'')) \<and>
      attributes r (str ''service.version'') = Some (JString (str ''v1'')) \<and>
      attributes r (str ''service.instance.id'') = Some (JString (str ''i-123''))\<close>
  by (rule detect_well_formed_document) (simp_all add: host_paths beanstalk_host_fs)

text \<open>
  C3 as stated fails. The object literal lists all six keys whatever the values are. For
  a document that holds \<^verbatim>\<open>environment_name\<close> only, the resource has the keys
  \<^verbatim>\<open>service.version\<close> and \<^verbatim>\<open>service.instance.id\<close>, and both map to \<^verbatim>\<open>undefined\<close>:
  the keys are not omitted.
\<close>

theorem detect_inserts_undefined:
  \<open>snd (detect (awsBeanstalkDetector (beanstalk_host (str ''{"environment_name":"prod"}'')))
          (None :: unit option) (beanstalk_host (str ''{"environment_name":"prod"}''))) =
     Inr (Resource
           [str ''cloud.provider'' \<mapsto> JString (str ''aws''),
            str ''cloud.platform'' \<mapsto> JString (str ''aws_elastic_beanstalk''),
            str ''service.name'' \<mapsto> JString (str ''aws_elastic_beanstalk''),
            str ''service.namespace'' \<mapsto> JString (str ''prod''),
            str ''service.version'' \<mapsto> JUndefined,
            str ''service.instance.id'' \<mapsto> JUndefined])\<close>
  by (rule detect_partial_document)

text \<open>
  C3, amended. Every resource that \<^verbatim>\<open>detect\<close> returns is either empty or has exactly the
  six keys. Of these \<^verbatim>\<open>cloud.provider\<close>, \<^verbatim>\<open>cloud.platform\<close> and \<^verbatim>\<open>service.name\<close> map to
  fixed strings, and \<^verbatim>\<open>service.namespace\<close>, \<^verbatim>\<open>service.version\<close> and
  \<^verbatim>\<open>service.instance.id\<close> map to what reading \<^verbatim>\<open>environment_name\<close>, \<^verbatim>\<open>version_label\<close> and
  \<^verbatim>\<open>deployment_id\<close> of the parsed document gives. When the document is an object without
  such a field, the key is present and maps to \<^verbatim>\<open>undefined\<close>.
\<close>

theorem detect_keys_and_values:
  assumes "snd (detect this cfg w) = Inr r" and "r \<noteq> Resource_empty"
  shows "dom (attributes r) =
      {CLOUD_PROVIDER, CLOUD_PLATFORM, SERVICE_NAME, SERVICE_NAMESPACE, SERVICE_VERSION,
       SERVICE_INSTANCE_ID} \<and>
    attributes r CLOUD_PROVIDER = Some (JString AWS) \<and>
    attributes r CLOUD_PLATFORM = Some (JString AWS_ELASTIC_BEANSTALK) \<and>
    attributes r SERVICE_NAME = Some (JString AWS_ELASTIC_BEANSTALK) \<and>
    (\<exists>rawData parsedData environment_name version_label deployment_id.
        fs_readFile w (BEANSTALK_CONF_PATH this) ''utf8'' = Inr rawData \<and>
        JSON_parse rawData = Inr parsedData \<and>
        js_get parsedData (str ''environment_name'') = Inr environment_name \<and>
        js_get parsedData (str ''version_label'') = Inr version_label \<and>
        js_get parsedData (str ''deployment_id'') = Inr deployment_id \<and>
        attributes r SERVICE_NAMESPACE = Some environment_name \<and>
        attributes r SERVICE_VERSION = Some version_label \<and>
        attributes r SERVICE_INSTANCE_ID = Some deployment_id \<and>
        (\<forall>ms. parsedData = JObject ms \<longrightarrow>
           (str ''environment_name'' \<notin> fst ` set ms \<longrightarrow>
              attributes r SERVICE_NAMESPACE = Some JUndefined) \<and>
           (str ''version_label'' \<notin> fst ` set ms \<longrightarrow>
              attributes r SERVICE_VERSION = Some JUndefined) \<and>
           (str ''deployment_id'' \<notin> fst ` set ms \<longrightarrow>
              attributes r SERVICE_INSTANCE_ID = Some JUndefined)))"
proof -
  from detect_fulfilled_cases [OF assms(1)] assms(2)
  obtain rawData parsedData environment_name version_label deployment_id where
    read: "fs_readFile w (BEANSTALK_CONF_PATH this) ''utf8'' = Inr rawData"
    and parse: "JSON_parse rawData = Inr parsedData"
    and get: "js_get parsedData (str ''environment_name'') = Inr environment_name"
      "js_get parsedData (str ''version_label'') = Inr version_label"
      "js_get parsedData (str ''deployment_id'') = Inr deployment_id"
    and r: "r = Resource
           [CLOUD_PROVIDER \<mapsto> JString AWS,
            CLOUD_PLATFORM \<mapsto> JString AWS_ELASTIC_BEANSTALK,
            SERVICE_NAME \<mapsto> JString AWS_ELASTIC_BEANSTALK,
            SERVICE_NAMESPACE \<mapsto> environment_name,
            SERVICE_VERSION \<mapsto> version_label,
            SERVICE_INSTANCE_ID \<mapsto> deployment_id]"
    by blast
  have dom: "dom (attributes r) =
      {CLOUD_PROVIDER, CLOUD_PLATFORM, SERVICE_NAME, SERVICE_NAMESPACE, SERVICE_VERSION,
       SERVICE_INSTANCE_ID}"
    unfolding r Resource.sel by (rule six_keys_dom)
  have fixed: "attributes r CLOUD_PROVIDER = Some (JString AWS)"
    "attributes r CLOUD_PLATFORM = Some (JString AWS_ELASTIC_BEANSTALK)"
    "attributes r SERVICE_NAME = Some (JString AWS_ELASTIC_BEANSTALK)"
    by (simp_all add: r attribute_keys_distinct)
  have taken: "attributes r SERVICE_NAMESPACE = Some environment_name"
    "attributes r SERVICE_VERSION = Some version_label"
    "attributes r SERVICE_INSTANCE_ID = Some deployment_id"
    by (simp_all add: r attribute_keys_distinct)
  have absent: "\<forall>ms. parsedData = JObject ms \<longrightarrow>
           (str ''environment_name'' \<notin> fst ` set ms \<longrightarrow>
              attributes r SERVICE_NAMESPACE = Some JUndefined) \<and>
           (str ''version_label'' \<notin> fst ` set ms \<longrightarrow>
              attributes r SERVICE_VERSION = Some JUndefined) \<and>
           (str ''deployment_id'' \<notin> fst ` set ms \<longrightarrow>
              attributes r SERVICE_INSTANCE_ID = Some JUndefined)"
    using get taken by (auto simp: map_of_eq_None_iff [THEN iffD2])
  from dom fixed read parse get taken absent show ?thesis
    by blast
qed

theorem detect_keys_and_values_witness:
  \<open>dom (attributes (Resource
           [str ''cloud.provider'' \<mapsto> JString (str ''aws''),
            str ''cloud.platform'' \<mapsto> JString (str ''aws_elastic_beanstalk''),
            str ''service.name'' \<mapsto> JString (str ''aws_elastic_beanstalk''),
            str ''service.namespace'' \<mapsto> JString (str ''prod''),
            str ''service.version'' \<mapsto> JUndefined,
            str ''service.instance.id'' \<mapsto> JUndefined])) =
      {CLOUD_PROVIDER, CLOUD_PLATFORM, SERVICE_NAME, SERVICE_NAMESPACE, SERVICE_VERSION,
       SERVICE_INSTANCE_ID}\<close>
proof -
  let ?r = \<open>Resource
           [str ''cloud.provider'' \<mapsto> JString (str ''aws''),
            str ''cloud.platform'' \<mapsto> JString (str ''aws_elastic_beanstalk''),
            str ''service.name'' \<mapsto> JString (str ''aws_elastic_beanstalk''),
            str ''service.namespace'' \<mapsto> JString (str ''prod''),
            str ''service.version'' \<mapsto> JUndefined,
            str ''service.instance.id'' \<mapsto> JUndefined]\<close>
  have "?r \<noteq> Resource_empty"
    unfolding Resource_empty_def Resource.inject by (rule map_upd_nonempty)
  from detect_keys_and_values [OF detect_partial_document this]
  show ?thesis by blast
qed

text \<open>
  C4 as stated fails. The text \<^verbatim>\<open>{}\<close> parses, to an object with none of the three fields.
  \<^verbatim>\<open>detect\<close> does not return the empty resource for it, as it does where the file is
  missing: it returns the six keys, three of them \<^verbatim>\<open>undefined\<close>.
\<close>

theorem detect_unstructured_not_empty:
  \<open>JSON_parse (str ''{}'') = Inr (JObject []) \<and>
   snd (detect (awsBeanstalkDetector (beanstalk_host (str ''{}''))) (None :: unit option)
          (beanstalk_host (str ''{}''))) =
     Inr (Resource
           [str ''cloud.provider'' \<mapsto> JString (str ''aws''),
            str ''cloud.platform'' \<mapsto> JString (str ''aws_elastic_beanstalk''),
            str ''service.name'' \<mapsto> JString (str ''aws_elastic_beanstalk''),
            str ''service.namespace'' \<mapsto> JUndefined,
            str ''service.version'' \<mapsto> JUndefined,
            str ''service.instance.id'' \<mapsto> JUndefined]) \<and>
   snd (detect (awsBeanstalkDetector (beanstalk_host (str ''{}''))) (None :: unit option)
          (beanstalk_host (str ''{}''))) \<noteq>
   snd (detect (awsBeanstalkDetector host_without_file) (None :: unit option)
          host_without_file)\<close>
proof -
  have "Resource
           [str ''cloud.provider'' \<mapsto> JString (str ''aws''),
            str ''cloud.platform'' \<mapsto> JString (str ''aws_elastic_beanstalk''),
            str ''service.name'' \<mapsto> JString (str ''aws_elastic_beanstalk''),
            str ''service.namespace'' \<mapsto> JUndefined,
            str ''service.version'' \<mapsto> JUndefined,
            str ''service.instance.id'' \<mapsto> JUndefined] \<noteq> Resource_empty"
    unfolding Resource_empty_def Resource.inject by (rule map_upd_nonempty)
  then show ?thesis
    by (simp add: parse_empty_object detect_empty_object detect_host_without_file)
qed

text \<open>
  C4, amended. If the file is readable and its content fails to parse as JSON, or parses
  to \<^verbatim>\<open>null\<close>, \<^verbatim>\<open>detect\<close> returns the empty resource, the same result as in a world
  where the access check fails. Content that parses to any other value is not checked
  for its structure: \<^verbatim>\<open>detect\<close> returns a resource with all six keys.
\<close>

theorem detect_malformed_content:
  assumes "fs_access w (BEANSTALK_CONF_PATH this) R_OK = None"
    and "fs_readFile w (BEANSTALK_CONF_PATH this) ''utf8'' = Inr rawData"
    and "fs_access w' (BEANSTALK_CONF_PATH this') R_OK = Some e'"
  shows "(((\<exists>e. JSON_parse rawData = Inl e) \<or> JSON_parse rawData = Inr JNull) \<longrightarrow>
            snd (detect this cfg w) = Inr Resource_empty \<and>
            snd (detect this cfg w) = snd (detect this' cfg' w')) \<and>
         (\<forall>parsedData. JSON_parse rawData = Inr parsedData \<and> parsedData \<noteq> JNull \<longrightarrow>
            (\<exists>r. snd (detect this cfg w) = Inr r \<and>
                 dom (attributes r) =
                   {CLOUD_PROVIDER, CLOUD_PLATFORM, SERVICE_NAME, SERVICE_NAMESPACE,
                    SERVICE_VERSION, SERVICE_INSTANCE_ID}))"
proof (intro conjI impI allI)
  have missing: "snd (detect this' cfg' w') = Inr Resource_empty"
    using assms(3) by (simp add: detect_def detect_try_def fileAccessAsync_def readFileAsync_def)
  assume bad: "(\<exists>e. JSON_parse rawData = Inl e) \<or> JSON_parse rawData = Inr JNull"
  then show empty: "snd (detect this cfg w) = Inr Resource_empty"
  proof
    assume "\<exists>e. JSON_parse rawData = Inl e"
    then obtain e where "JSON_parse rawData = Inl e" ..
    from detect_parse_throws [OF assms(1,2) this, of cfg] show ?thesis by simp
  next
    assume null: "JSON_parse rawData = Inr JNull"
    have "js_get JNull (str ''environment_name'') = Inl (type_error ''null'')" by simp
    from detect_get_throws [OF assms(1,2) null this, of cfg] show ?thesis by simp
  qed
  with missing show "snd (detect this cfg w) = snd (detect this' cfg' w')" by simp
next
  fix parsedData
  assume "JSON_parse rawData = Inr parsedData \<and> parsedData \<noteq> JNull"
  then have parse: "JSON_parse rawData = Inr parsedData" and "parsedData \<noteq> JNull" by simp_all
  moreover from parse have "parsedData \<noteq> JUndefined"
    using JSON_parse_defined [of rawData] by auto
  ultimately obtain a b c where get: "js_get parsedData (str ''environment_name'') = Inr a"
    "js_get parsedData (str ''version_label'') = Inr b"
    "js_get parsedData (str ''deployment_id'') = Inr c"
    using js_get_returns by meson
  from detect_fulfilled_with [OF assms(1,2) parse get, of cfg]
  show "\<exists>r. snd (detect this cfg w) = Inr r \<and>
                 dom (attributes r) =
                   {CLOUD_PROVIDER, CLOUD_PLATFORM, SERVICE_NAME, SERVICE_NAMESPACE,
                    SERVICE_VERSION, SERVICE_INSTANCE_ID}"
    by auto
qed

theorem detect_malformed_content_witness:
  \<open>snd (detect (awsBeanstalkDetector (beanstalk_host (str ''not json''))) (None :: unit option)
          (beanstalk_host (str ''not json''))) = Inr Resource_empty \<and>
   snd (detect (awsBeanstalkDetector (beanstalk_host (str ''not json''))) (None :: unit option)
          (beanstalk_host (str ''not json''))) =
   snd (detect (awsBeanstalkDetector host_without_file) (None :: unit option) host_without_file)\<close>
proof -
  have a: "fs_access (beanstalk_host (str ''not json''))
          (BEANSTALK_CONF_PATH (awsBeanstalkDetector (beanstalk_host (str ''not json'')))) R_OK = None"
    by (simp add: host_paths beanstalk_host_fs)
  have b: "fs_readFile (beanstalk_host (str ''not json''))
          (BEANSTALK_CONF_PATH (awsBeanstalkDetector (beanstalk_host (str ''not json'')))) ''utf8''
        = Inr (str ''not json'')"
    by (simp add: host_paths beanstalk_host_fs)
  have c: "fs_access host_without_file
          (BEANSTALK_CONF_PATH (awsBeanstalkDetector host_without_file)) R_OK = Some enoent"
    by (simp add: host_without_file_def)
  from detect_malformed_content [OF a b c, of "None :: unit option" "None :: unit option"]
    parse_not_json
  show ?thesis by blast
qed

text \<open>
  C5 as stated fails. \<^verbatim>\<open>service.name\<close> is not a default: the parsed document is never
  asked for a service name. A document that carries one (here under \<^verbatim>\<open>service.name\<close> and
  under \<^verbatim>\<open>service_name\<close>) still gets the platform constant.
\<close>

theorem detect_overrides_service_name:
  \<open>JSON_parse (str ''{"service.name":"shop","service_name":"shop","environment_name":"prod","version_label":"v1","deployment_id":"i-123"}'') =
     Inr (JObject [(str ''service.name'', JString (str ''shop'')),
                   (str ''service_name'', JString (str ''shop'')),
                   (str ''environment_name'', JString (str ''prod'')),
                   (str ''version_label'', JString (str ''v1'')),
                   (str ''deployment_id'', JString (str ''i-123''))]) \<and>
   snd (detect (awsBeanstalkDetector (beanstalk_host (str ''{"service.name":"shop","service_name":"shop","environment_name":"prod","version_label":"v1","deployment_id":"i-123"}'')))
          (None :: unit option)
          (beanstalk_host (str ''{"service.name":"shop","service_name":"shop","environment_name":"prod","version_label":"v1","deployment_id":"i-123"}''))) =
     Inr (Resource
           [str ''cloud.provider'' \<mapsto> JString (str ''aws''),
            str ''cloud.platform'' \<mapsto> JString (str ''aws_elastic_beanstalk''),
            str ''service.name'' \<mapsto> JString (str ''aws_elastic_beanstalk''),
            str ''service.namespace'' \<mapsto> JString (str ''prod''),
            str ''service.version'' \<mapsto> JString (str ''v1''),
            str ''service.instance.id'' \<mapsto> JString (str ''i-123'')])\<close>
  using parse_named_document
    detect_on_beanstalk_host [OF parse_named_document get_named_document]
  by blast

text \<open>
  C5, amended. On the success path (the file is readable and parses to a value other than
  \<^verbatim>\<open>null\<close>) \<^verbatim>\<open>service.name\<close> is always the Elastic Beanstalk platform constant, whatever
  the document contains; \<^verbatim>\<open>cloud.provider\<close> and \<^verbatim>\<open>cloud.platform\<close> are the fixed
  constants; and \<^verbatim>\<open>service.namespace\<close>, \<^verbatim>\<open>service.version\<close> and \<^verbatim>\<open>service.instance.id\<close>
  are what reading \<^verbatim>\<open>environment_name\<close>, \<^verbatim>\<open>version_label\<close> and \<^verbatim>\<open>deployment_id\<close> of the
  document gives.
\<close>

theorem detect_success_attributes:
  assumes "fs_access w (BEANSTALK_CONF_PATH this) R_OK = None"
    and "fs_readFile w (BEANSTALK_CONF_PATH this) ''utf8'' = Inr rawData"
    and "JSON_parse rawData = Inr parsedData"
    and "parsedData \<noteq> JNull"
  shows "\<exists>r environment_name version_label deployment_id.
      snd (detect this cfg w) = Inr r \<and>
      attributes r (str ''service.name'') = Some (JString (str ''aws_elastic_beanstalk'')) \<and>
      attributes r (str ''cloud.provider'') = Some (JString (str ''aws'')) \<and>
      attributes r (str ''cloud.platform'') = Some (JString (str ''aws_elastic_beanstalk'')) \<and>
      js_get parsedData (str ''environment_name'') = Inr environment_name \<and>
      js_get parsedData (str ''version_label'') = Inr version_label \<and>
      js_get parsedData (str ''deployment_id'') = Inr deployment_id \<and>
      attributes r (str ''service.namespace'') = Some environment_name \<and>
      attributes r (str ''service.version'') = Some version_label \<and>
      attributes r (str ''service.instance.id'') = Some deployment_id"
proof -
  from assms(3) have "parsedData \<noteq> JUndefined"
    using JSON_parse_defined [of rawData] by auto
  with assms(4) obtain a b c where get: "js_get parsedData (str ''environment_name'') = Inr a"
    "js_get parsedData (str ''version_label'') = Inr b"
    "js_get parsedData (str ''deployment_id'') = Inr c"
    using js_get_returns by meson
  let ?r = "Resource
           [CLOUD_PROVIDER \<mapsto> JString AWS,
            CLOUD_PLATFORM \<mapsto> JString AWS_ELASTIC_BEANSTALK,
            SERVICE_NAME \<mapsto> JString AWS_ELASTIC_BEANSTALK,
            SERVICE_NAMESPACE \<mapsto> a,
            SERVICE_VERSION \<mapsto> b,
            SERVICE_INSTANCE_ID \<mapsto> c]"
  have "snd (detect this cfg w) = Inr ?r"
    using detect_fulfilled_with [OF assms(1,2,3) get, of cfg] by simp
  moreover have "attributes ?r SERVICE_NAME = Some (JString AWS_ELASTIC_BEANSTALK)"
    "attributes ?r CLOUD_PROVIDER = Some (JString AWS)"
    "attributes ?r CLOUD_PLATFORM = Some (JString AWS_ELASTIC_BEANSTALK)"
    "attributes ?r SERVICE_NAMESPACE = Some a"
    "attributes ?r SERVICE_VERSION = Some b"
    "attributes ?r SERVICE_INSTANCE_ID = Some c"
    by (simp_all add: attribute_keys_distinct)
  ultimately show ?thesis
    using get unfolding key_defs by blast
qed

theorem detect_success_attributes_witness:
  \<open>\<exists>r. snd (detect (awsBeanstalkDetector (beanstalk_host (str ''{"service.name":"shop","service_name":"shop","environment_name":"prod","version_label":"v1","deployment_id":"i-123"}'')))
          (None :: unit option)
          (beanstalk_host (str ''{"service.name":"shop","service_name":"shop","environment_name":"prod","version_label":"v1","deployment_id":"i-123"}''))) = Inr r \<and>
      attributes r (str ''service.name'') = Some (JString (str ''aws_elastic_beanstalk''))\<close>
proof -
  let ?c = \<open>str ''{"service.name":"shop","service_name":"shop","environment_name":"prod","version_label":"v1","deployment_id":"i-123"}''\<close>
  have a: "fs_access (beanstalk_host ?c)
          (BEANSTALK_CONF_PATH (awsBeanstalkDetector (beanstalk_host ?c))) R_OK = None"
    by (simp add: host_paths beanstalk_host_fs)
  have b: "fs_readFile (beanstalk_host ?c)
          (BEANSTALK_CONF_PATH (awsBeanstalkDetector (beanstalk_host ?c))) ''utf8'' = Inr ?c"
    by (simp add: host_paths beanstalk_host_fs)
  from detect_success_attributes [OF a b parse_named_document, of "None :: unit option"]
  show ?thesis by blast
qed

text \<open>
  C9. If the access check on the configuration path rejects, \<^verbatim>\<open>detect\<close> returns the
  empty resource, and the only calls it has made are the access check and the debug
  message: the file is neither read nor parsed.
\<close>

theorem detect_inaccessible:
  assumes "fs_access w (BEANSTALK_CONF_PATH this) R_OK = Some e"
  shows "detect this cfg w =
    ([FsAccess (BEANSTALK_CONF_PATH this) R_OK,
      DiagDebug (''AwsBeanstalkDetector failed: '' @ message e)], Inr Resource_empty)"
  using assms by (simp add: detect_def detect_try_def fileAccessAsync_def readFileAsync_def)

theorem detect_inaccessible_witness:
  "detect (awsBeanstalkDetector host_with_unreadable_file) (None :: unit option)
      host_with_unreadable_file =
    ([FsAccess DEFAULT_BEANSTALK_CONF_PATH R_OK,
      DiagDebug ''AwsBeanstalkDetector failed: EACCES: permission denied''],
     Inr Resource_empty)"
proof -
  have "fs_access host_with_unreadable_file
          (BEANSTALK_CONF_PATH (awsBeanstalkDetector host_with_unreadable_file)) R_OK
        = Some eacces"
    by (simp add: host_paths) (simp add: host_with_unreadable_file_def)
  from detect_inaccessible [OF this, of "None :: unit option"]
  show ?thesis by (simp add: host_paths eacces_def)
qed

text \<open>
  C10. The configuration argument has no influence: in every world \<^verbatim>\<open>detect\<close> makes
  the same calls and returns the same resource for any two configurations, the omitted
  one (\<open>None\<close>) included. It follows that \<^verbatim>\<open>detect\<close> enforces no timeout taken from its
  configuration.
\<close>

theorem detect_ignores_config:
  "detect this config1 w = detect this config2 w"
  by (simp add: detect_def)

section \<open>The claims about merging and resolving\<close>

lemma attributes_merge:
  "attributes (merge a b) k =
     (case attributes b k of
        None \<Rightarrow> attributes a k
      | Some v \<Rightarrow>
          (if is_empty_value v
           then (case attributes a k of Some u \<Rightarrow> Some u | None \<Rightarrow> Some v)
           else Some v))"
  by (simp add: merge_def)

lemma Resource_eqI: "(\<And>k. attributes a k = attributes b k) \<Longrightarrow> a = b"
  by (cases a, cases b) auto

lemma merge_empty_left: "merge Resource_empty b = b"
  by (cases b) (auto simp: merge_def Resource_empty_def split: option.splits)

lemma merge_empty_right: "merge a Resource_empty = a"
  by (cases a) (simp add: merge_def Resource_empty_def)

lemma example_keys: "str ''a'' \<noteq> str ''b''"
  by (simp add: str_def)

lemma example_values:
  "\<not> is_empty_value (JString (str ''1''))" "\<not> is_empty_value (JString (str ''2''))"
  "\<not> is_empty_value (JString (str ''3''))" "\<not> is_empty_value (JString (str ''v1''))"
  "\<not> is_empty_value (JString (str ''v2''))"
  by (simp_all add: is_empty_value_def str_def)

lemma length_collect_aux:
  "length (foldl (settle ds w) slots order) = length slots"
  by (induction order arbitrary: slots) (simp_all add: settle_def)

lemma nth_collect_aux:
  assumes "i < length slots" and "length slots = length ds"
  shows "foldl (settle ds w) slots order ! i =
           (if i \<in> set order then Some ((ds ! i) w) else slots ! i)"
  using assms
proof (induction order arbitrary: slots)
  case Nil
  then show ?case by simp
next
  case (Cons j order)
  then show ?case
    by (auto simp: settle_def nth_list_update)
qed

lemma length_collect: "length (collect ds w order) = length ds"
  by (simp add: collect_def length_collect_aux)

lemma nth_collect:
  "i < length ds \<Longrightarrow>
     collect ds w order ! i = (if i \<in> set order then Some ((ds ! i) w) else None)"
  by (simp add: collect_def nth_collect_aux)

lemma collect_cong:
  assumes "set order1 = set order2"
  shows "collect ds w order1 = collect ds w order2"
  by (rule nth_equalityI) (simp_all add: length_collect nth_collect assms)

lemma collect_all:
  assumes "set order = {..<length ds}"
  shows "map slot_result (collect ds w order) = map (\<lambda>d. d w) ds"
  by (rule nth_equalityI) (simp_all add: length_collect nth_collect assms slot_result_def)

lemma fold_D1_D2:
  "foldl merge Resource_empty [D1 w, D2 w] =
     Resource [str ''a'' \<mapsto> JString (str ''2''), str ''b'' \<mapsto> JString (str ''3'')]"
proof -
  have "merge (D1 w) (D2 w) =
     Resource [str ''a'' \<mapsto> JString (str ''2''), str ''b'' \<mapsto> JString (str ''3'')]"
    by (rule Resource_eqI)
       (simp add: attributes_merge D1_def D2_def example_values example_keys)
  then show ?thesis by (simp add: merge_empty_left)
qed

lemma two_detectors: "{..<length [D1, D2]} = {0, 1}"
  by (auto simp: lessThan_Suc)

text \<open>
  C6. In \<open>merge a b\<close>, for a key present in both sets the value of \<open>b\<close> wins when it is
  not empty, and a non-empty value of \<open>a\<close> is kept when the key is absent from \<open>b\<close> or
  empty there. Merging \<^verbatim>\<open>{"k":"v1"}\<close> with \<^verbatim>\<open>{"k":"v2"}\<close> gives \<^verbatim>\<open>{"k":"v2"}\<close>, and merging
  \<^verbatim>\<open>{"k":"v1"}\<close> with the empty set gives \<^verbatim>\<open>{"k":"v1"}\<close>.
\<close>

theorem merge_precedence:
  "(attributes a k = Some u \<and> attributes b k = Some v \<and> \<not> is_empty_value v \<longrightarrow>
      attributes (merge a b) k = Some v) \<and>
   (attributes a k = Some u \<and> \<not> is_empty_value u \<and>
      (attributes b k = None \<or> (\<exists>v. attributes b k = Some v \<and> is_empty_value v)) \<longrightarrow>
      attributes (merge a b) k = Some u) \<and>
   merge (Resource [str ''k'' \<mapsto> JString (str ''v1'')])
         (Resource [str ''k'' \<mapsto> JString (str ''v2'')]) =
     Resource [str ''k'' \<mapsto> JString (str ''v2'')] \<and>
   merge (Resource [str ''k'' \<mapsto> JString (str ''v1'')]) (Resource Map.empty) =
     Resource [str ''k'' \<mapsto> JString (str ''v1'')]"
proof (intro conjI impI)
  assume "attributes a k = Some u \<and> attributes b k = Some v \<and> \<not> is_empty_value v"
  then show "attributes (merge a b) k = Some v"
    by (simp add: attributes_merge)
next
  assume "attributes a k = Some u \<and> \<not> is_empty_value u \<and>
      (attributes b k = None \<or> (\<exists>v. attributes b k = Some v \<and> is_empty_value v))"
  then show "attributes (merge a b) k = Some u"
    by (auto simp: attributes_merge)
next
  show "merge (Resource [str ''k'' \<mapsto> JString (str ''v1'')])
         (Resource [str ''k'' \<mapsto> JString (str ''v2'')]) =
     Resource [str ''k'' \<mapsto> JString (str ''v2'')]"
    by (rule Resource_eqI) (simp add: attributes_merge example_values)
next
  show "merge (Resource [str ''k'' \<mapsto> JString (str ''v1'')]) (Resource Map.empty) =
     Resource [str ''k'' \<mapsto> JString (str ''v1'')]"
    by (rule Resource_eqI) (simp add: attributes_merge)
qed

theorem merge_precedence_witness:
  "attributes (merge (Resource [str ''k'' \<mapsto> JString (str ''v1'')])
                     (Resource [str ''k'' \<mapsto> JNull])) (str ''k'') =
     Some (JString (str ''v1''))"
proof -
  have a: "attributes (Resource [str ''k'' \<mapsto> JString (str ''v1'')]) (str ''k'') =
      Some (JString (str ''v1''))"
    by simp
  have b: "attributes (Resource [str ''k'' \<mapsto> JNull]) (str ''k'') = Some JNull"
    by simp
  have c: "is_empty_value JNull"
    by (simp add: is_empty_value_def)
  from merge_precedence [of "Resource [str ''k'' \<mapsto> JString (str ''v1'')]" "str ''k''"
        "JString (str ''v1'')" "Resource [str ''k'' \<mapsto> JNull]" JNull]
  have "attributes (Resource [str ''k'' \<mapsto> JString (str ''v1'')]) (str ''k'') =
          Some (JString (str ''v1'')) \<and> \<not> is_empty_value (JString (str ''v1'')) \<and>
        (attributes (Resource [str ''k'' \<mapsto> JNull]) (str ''k'') = None \<or>
         (\<exists>v. attributes (Resource [str ''k'' \<mapsto> JNull]) (str ''k'') = Some v \<and>
              is_empty_value v)) \<longrightarrow>
        attributes (merge (Resource [str ''k'' \<mapsto> JString (str ''v1'')])
                     (Resource [str ''k'' \<mapsto> JNull])) (str ''k'') =
        Some (JString (str ''v1''))"
    by (rule conjunct1 [OF conjunct2])
  with a b c example_values(4) show ?thesis by blast
qed

text \<open>
  C7. Merging is idempotent: \<open>merge a a = a\<close> for every set \<open>a\<close>.
\<close>

theorem merge_idempotent: "merge a a = a"
proof (rule Resource_eqI)
  fix k
  show "attributes (merge a a) k = attributes a k"
    by (cases "attributes a k") (simp_all add: attributes_merge)
qed

text \<open>
  C8. The result of \<open>resolve\<close> does not depend on the order in which the detectors
  complete: two runs in which the same detectors complete, in any order, give the same
  resource. When all detectors complete, the result is the fold from left to right of
  their results in the order of the configured list. For the detectors \<open>D1\<close> and \<open>D2\<close> of
  the spec's example it is \<^verbatim>\<open>{"a":"2","b":"3"}\<close>, whichever completes first.
\<close>

theorem resolve_deterministic:
  "(set completed1 = set completed2 \<longrightarrow>
      resolve detectors w completed1 = resolve detectors w completed2) \<and>
   (set completed = {..<length detectors} \<longrightarrow>
      resolve detectors w completed =
        foldl merge Resource_empty (map (\<lambda>d. d w) detectors)) \<and>
   (set order = {0, 1} \<longrightarrow>
      resolve [D1, D2] w order =
        Resource [str ''a'' \<mapsto> JString (str ''2''), str ''b'' \<mapsto> JString (str ''3'')])"
proof (intro conjI impI)
  assume same: "set completed1 = set completed2"
  show "resolve detectors w completed1 = resolve detectors w completed2"
    unfolding resolve_def collect_cong [OF same, of detectors w] ..
next
  assume all: "set completed = {..<length detectors}"
  show "resolve detectors w completed =
        foldl merge Resource_empty (map (\<lambda>d. d w) detectors)"
    unfolding resolve_def collect_all [OF all, of w] ..
next
  assume "set order = {0, 1}"
  then have "set order = {..<length [D1, D2]}"
    by (simp only: two_detectors)
  then have "map slot_result (collect [D1, D2] w order) = [D1 w, D2 w]"
    using collect_all [of order "[D1, D2]" w] by simp
  then show "resolve [D1, D2] w order =
        Resource [str ''a'' \<mapsto> JString (str ''2''), str ''b'' \<mapsto> JString (str ''3'')]"
    unfolding resolve_def by (simp only: fold_D1_D2)
qed

theorem resolve_deterministic_witness:
  "resolve [D1, D2] host_without_file [1, 0] = resolve [D1, D2] host_without_file [0, 1] \<and>
   resolve [D1, D2] host_without_file [1, 0] =
     Resource [str ''a'' \<mapsto> JString (str ''2''), str ''b'' \<mapsto> JString (str ''3'')]"
proof -
  have s: "set [1, 0 :: nat] = set [0, 1]" "set [1, 0 :: nat] = {0, 1}" by auto
  from resolve_deterministic [of "[1, 0]" "[0, 1]" "[D1, D2]" host_without_file "[]" "[1, 0]"] s
  show ?thesis by blast
qed

end
